theory Spec2Isabelle
  imports Main
begin

section \<open>Data model of the garment detail modal\<close>

text \<open>
  The browser's \<^verbatim>\<open>File\<close>: a name, a MIME type and the bytes (here a string).
\<close>

datatype jsfile = File (fileName: string) (fileType: string) (fileBytes: string)

text \<open>
  \<^verbatim>\<open>type Variation = { hex: string; url: string; file?: File;
     status: 'original' | 'done' | 'generating' | 'error' }\<close>
\<close>

datatype status = Original | Done | Generating | Error

record variation =
  hex :: string
  url :: string
  file' :: "jsfile option"
  status :: status

text \<open>
  \<^verbatim>\<open>WardrobeItem\<close> is imported from \<^verbatim>\<open>../types\<close>; the modal reads its fields
  \<^verbatim>\<open>id\<close>, \<^verbatim>\<open>name\<close>, \<^verbatim>\<open>url\<close>, \<^verbatim>\<open>brand\<close> and \<^verbatim>\<open>description\<close>, all strings.
  The fields carry the prefix \<open>item_\<close>, since \<open>id\<close> and \<open>url\<close> are taken. Likewise the
  optional \<^verbatim>\<open>file\<close> of a variation is the field \<open>file'\<close>, \<open>file\<close> being a keyword.
\<close>

record wardrobe_item =
  item_id :: string
  item_name :: string
  item_url :: string
  item_brand :: string
  item_description :: string

text \<open>
  The four \<^verbatim>\<open>useState\<close> cells of \<^verbatim>\<open>GarmentDetailModal\<close>. The selected index is
  only ever set to \<open>0\<close> or to the position of a rendered swatch, so it is a natural number.
\<close>

record modal_state =
  variations :: "variation list"
  selectedVariationIndex :: nat
  isGenerating :: bool
  error :: "string option"

text \<open>The state of a freshly mounted component.\<close>

definition initial_state :: modal_state where
  "initial_state =
     \<lparr>variations = [], selectedVariationIndex = 0, isGenerating = False, error = None\<rparr>"

text \<open>
  What a JavaScript \<^verbatim>\<open>throw\<close> or a rejected promise carries. A settled promise is a
  value of \<open>exn + 'a\<close>: \<open>Inl\<close> is the rejection.
\<close>

datatype exn = TypeError | SyntaxError | Thrown string

text \<open>
  The requests a handler sends to its collaborators, in the order they are sent: the
  colour suggestion, a recolour of the original file to a hex code, and the
  materialisation of a URL under a file name.
\<close>

datatype request =
  GetHarmonicColors jsfile
  | RecolorGarment jsfile string
  | UrlToFile string string

section \<open>Reading the selected variation\<close>

text \<open>
  \<^verbatim>\<open>variations[selectedVariationIndex]\<close>: an index past the end of a JavaScript array
  reads \<^verbatim>\<open>undefined\<close>, here \<open>None\<close>.
\<close>

definition at_index :: "'a list \<Rightarrow> nat \<Rightarrow> 'a option" where
  "at_index xs i = (if i < length xs then Some (xs ! i) else None)"

section \<open>\<^verbatim>\<open>handleApply\<close>\<close>

text \<open>
  \<^verbatim>\<open>
  const handleApply = () => {
      const selectedVariation = variations[selectedVariationIndex];
      if (item && selectedVariation?.file &&
          (selectedVariation.status === 'done' || selectedVariation.status === 'original')) {
          const newInfo: WardrobeItem = {
              ...item,
              id: `${item.id}-${selectedVariation.hex}`,
              name: selectedVariation.status === 'original'
                      ? item.name : `${item.name} (${selectedVariation.hex})`,
              url: selectedVariation.url,
          }
          onApply(selectedVariation.file, newInfo);
      }
  };
  \<close>
  The handler calls no state setter: it returns the state it was given, together with
  the call of \<^verbatim>\<open>onApply\<close> it makes, if any (\<open>None\<close> is a return with no call,
  \<open>Some (f, info)\<close> a return after \<^verbatim>\<open>onApply(f, info)\<close>). Reading a property of
  \<^verbatim>\<open>undefined\<close> throws a \<^verbatim>\<open>TypeError\<close>: the read of
  \<^verbatim>\<open>selectedVariation.status\<close> is modelled with that branch, guarded as in the source
  by the \<^verbatim>\<open>&&\<close> chain before it.
\<close>

type_synonym onApply_call = "(jsfile \<times> wardrobe_item) option"

definition newInfo :: "wardrobe_item \<Rightarrow> variation \<Rightarrow> wardrobe_item" where
  "newInfo item selectedVariation =
     item\<lparr>item_id := item_id item @ ''-'' @ hex selectedVariation,
          item_name := (if status selectedVariation = Original then item_name item
                        else item_name item @ '' ('' @ hex selectedVariation @ '')''),
          item_url := url selectedVariation\<rparr>"

definition handleApply ::
  "wardrobe_item option \<Rightarrow> modal_state \<Rightarrow> exn + modal_state \<times> onApply_call" where
  "handleApply item s =
     (let selectedVariation = at_index (variations s) (selectedVariationIndex s) in
      case item of
        None \<Rightarrow> Inr (s, None)
      | Some it \<Rightarrow>
          (case (case selectedVariation of None \<Rightarrow> None | Some v \<Rightarrow> file' v) of
             None \<Rightarrow> Inr (s, None)
           | Some f \<Rightarrow>
               (case selectedVariation of
                  None \<Rightarrow> Inl TypeError
                | Some v \<Rightarrow>
                    if status v = Done \<or> status v = Original
                    then Inr (s, Some (f, newInfo it v))
                    else Inr (s, None))))"

section \<open>\<^verbatim>\<open>initialize\<close>\<close>

text \<open>
  The effect that runs when \<^verbatim>\<open>item\<close> changes. \<^verbatim>\<open>urlToFile\<close> fetches a URL or draws
  it on a canvas; its outcome is the environment's, so it is a parameter.
  \<^verbatim>\<open>
  if (item) {
      const initialize = async () => {
          try {
              const originalFile = await urlToFile(item.url, item.name);
              setVariations([{ hex: 'original', url: item.url, file: originalFile,
                               status: 'original' }]);
              setSelectedVariationIndex(0);
              setError(null);
          } catch(err) {
              setError('Could not load original garment image.');
          }
      };
      initialize();
  }
  \<close>
\<close>

definition initialize ::
  "(string \<Rightarrow> string \<Rightarrow> exn + jsfile) \<Rightarrow> wardrobe_item option \<Rightarrow> modal_state \<Rightarrow> modal_state" where
  "initialize urlToFile item s =
     (case item of
        None \<Rightarrow> s
      | Some it \<Rightarrow>
          (case urlToFile (item_url it) (item_name it) of
             Inr originalFile \<Rightarrow>
               s\<lparr>variations :=
                    [\<lparr>hex = ''original'', url = item_url it, file' = Some originalFile,
                      status = Original\<rparr>],
                 selectedVariationIndex := 0,
                 error := None\<rparr>
           | Inl err \<Rightarrow> s\<lparr>error := Some ''Could not load original garment image.''\<rparr>))"

section \<open>\<^verbatim>\<open>getHarmonicColors\<close>\<close>

text \<open>
  The value \<^verbatim>\<open>JSON.parse\<close> returns. Arrays are arrays of strings: the request's
  response schema declares \<^verbatim>\<open>colors\<close> as an array of strings and the function returns
  it at type \<^verbatim>\<open>string[]\<close> without looking at the items. An object is the list of
  its own properties, each key once. Of a number only its being zero or not is ever
  observed.
\<close>

datatype json =
  JNull
  | JBool bool
  | JNum int
  | JStr string
  | JArr "string list"
  | JObj "(string \<times> json) list"

text \<open>
  \<^verbatim>\<open>result.colors\<close>: reading a property of \<^verbatim>\<open>null\<close> throws; an object gives the
  property or \<^verbatim>\<open>undefined\<close> (\<open>None\<close>); a boolean, a number, a string and an array
  have no property of that name.
\<close>

fun colors_of :: "json \<Rightarrow> exn + json option" where
  "colors_of JNull = Inl TypeError"
| "colors_of (JObj kvs) = Inr (map_of kvs ''colors'')"
| "colors_of _ = Inr None"

text \<open>JavaScript's truthiness of a parsed value, and \<^verbatim>\<open>Array.isArray\<close>.\<close>

fun truthy :: "json \<Rightarrow> bool" where
  "truthy JNull = False"
| "truthy (JBool b) = b"
| "truthy (JNum n) = (n \<noteq> 0)"
| "truthy (JStr s) = (s \<noteq> [])"
| "truthy (JArr xs) = True"
| "truthy (JObj kvs) = True"

fun isArray :: "json \<Rightarrow> bool" where
  "isArray (JArr xs) = True"
| "isArray _ = False"

fun items :: "json \<Rightarrow> string list" where
  "items (JArr xs) = xs"
| "items _ = []"

text \<open>The response of the text model: its \<^verbatim>\<open>text\<close> (the selector \<open>text'\<close>)
  may be \<^verbatim>\<open>undefined\<close>.\<close>

datatype response = Response (text': "string option")

text \<open>The part built from a file: MIME type and base64 data.\<close>

datatype part = InlineData string string

definition fallbackColors :: "string list" where
  "fallbackColors = [''#A0D2DB'', ''#7A6E9E'', ''#E8A0BF'', ''#B4E1D2'']"

text \<open>
  The body of the \<^verbatim>\<open>try\<close> block; \<open>parse\<close> stands for \<^verbatim>\<open>JSON.parse\<close> applied to
  the trimmed text, which throws a \<^verbatim>\<open>SyntaxError\<close> on text that is not JSON.
  \<^verbatim>\<open>
  const jsonString = response.text.trim();
  const result = JSON.parse(jsonString);
  if (result.colors && Array.isArray(result.colors) && result.colors.length > 0) {
      return result.colors;
  }
  throw new Error("Invalid JSON structure in response.");
  \<close>
\<close>

definition parseColors :: "(string \<Rightarrow> exn + json) \<Rightarrow> response \<Rightarrow> exn + string list" where
  "parseColors parse response =
     (case text' response of
        None \<Rightarrow> Inl TypeError
      | Some jsonString \<Rightarrow>
          (case parse jsonString of
             Inl e \<Rightarrow> Inl e
           | Inr result \<Rightarrow>
               (case colors_of result of
                  Inl e \<Rightarrow> Inl e
                | Inr None \<Rightarrow> Inl (Thrown ''Invalid JSON structure in response.'')
                | Inr (Some colors) \<Rightarrow>
                    if truthy colors \<and> isArray colors \<and> length (items colors) > 0
                    then Inr (items colors)
                    else Inl (Thrown ''Invalid JSON structure in response.''))))"

text \<open>
  \<^verbatim>\<open>
  export const getHarmonicColors = async (garmentImage: File): Promise<string[]> => {
      const garmentImagePart = await fileToPart(garmentImage);
      const response = await ai.models.generateContent({ model: textModel, ... });
      try { ... } catch (e) {
          // Fallback colors if generation fails
          return ['#A0D2DB', '#7A6E9E', '#E8A0BF', '#B4E1D2'];
      }
  };
  \<close>
  \<open>fileToPart\<close> reads the file and \<open>generateContent\<close> is the call to the remote
  model; both are awaited before the \<^verbatim>\<open>try\<close> block, so a rejection of either
  rejects the promise \<^verbatim>\<open>getHarmonicColors\<close> returns.
\<close>

definition getHarmonicColors ::
  "(jsfile \<Rightarrow> exn + part) \<Rightarrow> (part \<Rightarrow> exn + response) \<Rightarrow> (string \<Rightarrow> exn + json)
     \<Rightarrow> jsfile \<Rightarrow> exn + string list" where
  "getHarmonicColors fileToPart generateContent parse garmentImage =
     (case fileToPart garmentImage of
        Inl e \<Rightarrow> Inl e
      | Inr garmentImagePart \<Rightarrow>
          (case generateContent garmentImagePart of
             Inl e \<Rightarrow> Inl e
           | Inr response \<Rightarrow>
               (case parseColors parse response of
                  Inr colors \<Rightarrow> Inr colors
                | Inl e \<Rightarrow> Inr fallbackColors)))"

section \<open>\<^verbatim>\<open>handleGenerateVariations\<close>\<close>

text \<open>
  The two functional updates of the loop body.
  \<^verbatim>\<open>
  prev.map(v => v.hex === hex && v.status === 'generating'
      ? { ...v, url: newGarmentUrl, file: newGarmentFile, status: 'done' } : v)
  prev.map(v => v.hex === hex ? { ...v, status: 'error' } : v)
  \<close>
\<close>

definition markDone :: "string \<Rightarrow> string \<Rightarrow> jsfile \<Rightarrow> variation list \<Rightarrow> variation list" where
  "markDone h newGarmentUrl newGarmentFile prev =
     map (\<lambda>v. if hex v = h \<and> status v = Generating
              then v\<lparr>url := newGarmentUrl, file' := Some newGarmentFile, status := Done\<rparr>
              else v) prev"

definition markError :: "string \<Rightarrow> variation list \<Rightarrow> variation list" where
  "markError h prev = map (\<lambda>v. if hex v = h then v\<lparr>status := Error\<rparr> else v) prev"

text \<open>
  One pass of the loop body for the colour at position \<open>k\<close> of the batch. The remote
  recolouring and the materialisation of its result are the environment's: \<open>recolorGarment k\<close>
  and \<open>urlToFile k\<close> are the outcomes of the calls made in pass \<open>k\<close>, so two passes for the
  same colour may fare differently. The pass works on the variation list and on the log of
  requests sent so far.
  \<^verbatim>\<open>
  try {
      const newGarmentUrl = await recolorGarment(originalFile, hex);
      const newGarmentFile = await urlToFile(newGarmentUrl, `${item.name}-${hex}.png`);
      setVariations(prev => prev.map(...done...));
  } catch (e) {
      setVariations(prev => prev.map(...error...));
  }
  \<close>
\<close>

definition recolorPass ::
  "(nat \<Rightarrow> jsfile \<Rightarrow> string \<Rightarrow> exn + string) \<Rightarrow> (nat \<Rightarrow> string \<Rightarrow> string \<Rightarrow> exn + jsfile)
     \<Rightarrow> wardrobe_item \<Rightarrow> jsfile \<Rightarrow> nat \<Rightarrow> string
     \<Rightarrow> variation list \<times> request list \<Rightarrow> variation list \<times> request list" where
  "recolorPass recolorGarment urlToFile item originalFile k h st =
     (case st of (prev, log) \<Rightarrow>
        (case recolorGarment k originalFile h of
           Inl e \<Rightarrow> (markError h prev, log @ [RecolorGarment originalFile h])
         | Inr newGarmentUrl \<Rightarrow>
             (case urlToFile k newGarmentUrl (item_name item @ ''-'' @ h @ ''.png'') of
                Inl e \<Rightarrow>
                  (markError h prev,
                   log @ [RecolorGarment originalFile h,
                          UrlToFile newGarmentUrl (item_name item @ ''-'' @ h @ ''.png'')])
              | Inr newGarmentFile \<Rightarrow>
                  (markDone h newGarmentUrl newGarmentFile prev,
                   log @ [RecolorGarment originalFile h,
                          UrlToFile newGarmentUrl (item_name item @ ''-'' @ h @ ''.png'')]))))"

text \<open>\<^verbatim>\<open>for (const hex of colors) { ... }\<close>, from position \<open>k\<close> on.\<close>

fun forColors ::
  "(nat \<Rightarrow> jsfile \<Rightarrow> string \<Rightarrow> exn + string) \<Rightarrow> (nat \<Rightarrow> string \<Rightarrow> string \<Rightarrow> exn + jsfile)
     \<Rightarrow> wardrobe_item \<Rightarrow> jsfile \<Rightarrow> nat \<Rightarrow> string list
     \<Rightarrow> variation list \<times> request list \<Rightarrow> variation list \<times> request list" where
  "forColors recolorGarment urlToFile item originalFile k [] st = st"
| "forColors recolorGarment urlToFile item originalFile k (h # colors) st =
     forColors recolorGarment urlToFile item originalFile (Suc k) colors
       (recolorPass recolorGarment urlToFile item originalFile k h st)"

text \<open>
  The handler, run to completion with no other event in between. \<open>suggest\<close> is the
  outcome of \<^verbatim>\<open>getHarmonicColors\<close> on the original file. The result is the state after
  the \<^verbatim>\<open>finally\<close> block and the requests sent.
  \<^verbatim>\<open>
  if (!item || variations.length === 0 || !variations[0].file) return;
  setIsGenerating(true);
  setError(null);
  const originalFile = variations[0].file;
  try {
      const colors = await getHarmonicColors(originalFile);
      setVariations(prev => [...prev,
          ...colors.map(hex => ({ hex, url: '', status: 'generating' as const }))]);
      for (const hex of colors) { ... }
  } catch (err) {
      setError('Failed to get color suggestions.');
  } finally {
      setIsGenerating(false);
  }
  \<close>
\<close>

definition pending :: "string \<Rightarrow> variation" where
  "pending h = \<lparr>hex = h, url = [], file' = None, status = Generating\<rparr>"

definition handleGenerateVariations ::
  "(jsfile \<Rightarrow> exn + string list) \<Rightarrow> (nat \<Rightarrow> jsfile \<Rightarrow> string \<Rightarrow> exn + string)
     \<Rightarrow> (nat \<Rightarrow> string \<Rightarrow> string \<Rightarrow> exn + jsfile)
     \<Rightarrow> wardrobe_item option \<Rightarrow> modal_state \<Rightarrow> modal_state \<times> request list" where
  "handleGenerateVariations suggest recolorGarment urlToFile item s =
     (case item of
        None \<Rightarrow> (s, [])
      | Some it \<Rightarrow>
          (case variations s of
             [] \<Rightarrow> (s, [])
           | v0 # others \<Rightarrow>
               (case file' v0 of
                  None \<Rightarrow> (s, [])
                | Some originalFile \<Rightarrow>
                    (let s1 = s\<lparr>isGenerating := True, error := None\<rparr> in
                     case suggest originalFile of
                       Inl err \<Rightarrow>
                         (s1\<lparr>error := Some ''Failed to get color suggestions.'',
                             isGenerating := False\<rparr>,
                          [GetHarmonicColors originalFile])
                     | Inr colors \<Rightarrow>
                         (case forColors recolorGarment urlToFile it originalFile 0 colors
                                 (variations s1 @ map pending colors,
                                  [GetHarmonicColors originalFile]) of
                            (vs, log) \<Rightarrow>
                              (s1\<lparr>variations := vs, isGenerating := False\<rparr>, log))))))"

text \<open>
  The Generate button: \<^verbatim>\<open>onClick={handleGenerateVariations}
  disabled={isLoading || isGenerating}\<close>; a disabled button delivers no click.
\<close>

definition clickGenerate ::
  "bool \<Rightarrow> (jsfile \<Rightarrow> exn + string list) \<Rightarrow> (nat \<Rightarrow> jsfile \<Rightarrow> string \<Rightarrow> exn + string)
     \<Rightarrow> (nat \<Rightarrow> string \<Rightarrow> string \<Rightarrow> exn + jsfile)
     \<Rightarrow> wardrobe_item option \<Rightarrow> modal_state \<Rightarrow> modal_state \<times> request list" where
  "clickGenerate isLoading suggest recolorGarment urlToFile item s =
     (if isLoading \<or> isGenerating s then (s, [])
      else handleGenerateVariations suggest recolorGarment urlToFile item s)"

section \<open>Observations on a batch\<close>

text \<open>
  Pass \<open>k\<close> for colour \<open>h\<close> fails when its \<^verbatim>\<open>try\<close> block throws: the recolour call
  rejects, or it resolves and the materialisation of its URL rejects.
\<close>

definition passFails ::
  "(nat \<Rightarrow> jsfile \<Rightarrow> string \<Rightarrow> exn + string) \<Rightarrow> (nat \<Rightarrow> string \<Rightarrow> string \<Rightarrow> exn + jsfile)
     \<Rightarrow> wardrobe_item \<Rightarrow> jsfile \<Rightarrow> nat \<Rightarrow> string \<Rightarrow> bool" where
  "passFails recolorGarment urlToFile item originalFile k h =
     (case recolorGarment k originalFile h of
        Inl e \<Rightarrow> True
      | Inr newGarmentUrl \<Rightarrow>
          (case urlToFile k newGarmentUrl (item_name item @ ''-'' @ h @ ''.png'') of
             Inl e \<Rightarrow> True
           | Inr newGarmentFile \<Rightarrow> False))"

text \<open>The colours for which a recolour request was sent, in the order of the log.\<close>

fun recolorRequests :: "request list \<Rightarrow> string list" where
  "recolorRequests [] = []"
| "recolorRequests (RecolorGarment f h # rs) = h # recolorRequests rs"
| "recolorRequests (r # rs) = recolorRequests rs"

text \<open>
  In every list the handlers build, a variation with status \<open>Original\<close> has the key
  \<open>''original''\<close>: \<^verbatim>\<open>initialize\<close> creates the only such entry, and no update of a
  batch gives an entry that status.
\<close>

definition originalKeyed :: "variation list \<Rightarrow> bool" where
  "originalKeyed vs = (\<forall>v \<in> set vs. status v = Original \<longrightarrow> hex v = ''original'')"

section \<open>Example data\<close>

text \<open>
  A garment, its file, states of the modal and outcomes of the collaborators, used to run
  the handlers on concrete inputs.
\<close>

definition shirt :: wardrobe_item where
  "shirt = \<lparr>item_id = ''shirt-1'', item_name = ''Shirt'', item_url = ''/shirt.png'',
            item_brand = ''Acme'', item_description = ''A linen shirt''\<rparr>"

definition coat :: wardrobe_item where
  "coat = \<lparr>item_id = ''coat-7'', item_name = ''Coat'', item_url = ''/missing.png'',
           item_brand = ''Acme'', item_description = ''A wool coat''\<rparr>"

definition shirtFile :: jsfile where
  "shirtFile = File ''Shirt'' ''image/png'' ''PNG''"

definition originalVariation :: variation where
  "originalVariation =
     \<lparr>hex = ''original'', url = ''/shirt.png'', file' = Some shirtFile, status = Original\<rparr>"

text \<open>The shirt just loaded; the same while the colour suggestion is awaited.\<close>

definition loaded :: modal_state where
  "loaded = \<lparr>variations = [originalVariation], selectedVariationIndex = 0,
             isGenerating = False, error = None\<rparr>"

definition busy :: modal_state where
  "busy = loaded\<lparr>isGenerating := True\<rparr>"

text \<open>A list whose first entry has no file.\<close>

definition noFile :: modal_state where
  "noFile = \<lparr>variations = [\<lparr>hex = ''original'', url = ''/shirt.png'', file' = None,
                             status = Original\<rparr>],
             selectedVariationIndex = 0, isGenerating = False, error = None\<rparr>"

text \<open>In the middle of a batch: one colour failed, the next is in flight and selected.\<close>

definition midBatch :: modal_state where
  "midBatch =
     \<lparr>variations =
        [originalVariation,
         \<lparr>hex = ''#A0D2DB'', url = [], file' = None, status = Error\<rparr>,
         \<lparr>hex = ''#7A6E9E'', url = [], file' = None, status = Generating\<rparr>],
      selectedVariationIndex = 2, isGenerating = True, error = None\<rparr>"

text \<open>After a batch of one colour that went through.\<close>

definition recolored :: modal_state where
  "recolored =
     \<lparr>variations =
        [originalVariation,
         \<lparr>hex = ''#A0D2DB'', url = ''data:#A0D2DB'',
           file' = Some (File ''Shirt-#A0D2DB.png'' ''image/png'' ''data:#A0D2DB''),
           status = Done\<rparr>],
      selectedVariationIndex = 0, isGenerating = False, error = None\<rparr>"

definition oneColor :: "jsfile \<Rightarrow> exn + string list" where
  "oneColor f = Inr [''#A0D2DB'']"

definition sameColorTwice :: "jsfile \<Rightarrow> exn + string list" where
  "sameColorTwice f = Inr [''#A0D2DB'', ''#A0D2DB'']"

definition twoColors :: "jsfile \<Rightarrow> exn + string list" where
  "twoColors f = Inr [''#A0D2DB'', ''#7A6E9E'']"

definition allRecolored :: "nat \<Rightarrow> jsfile \<Rightarrow> string \<Rightarrow> exn + string" where
  "allRecolored k f h = Inr (''data:'' @ h)"

definition firstBlocked :: "nat \<Rightarrow> jsfile \<Rightarrow> string \<Rightarrow> exn + string" where
  "firstBlocked k f h =
     (if k = 0 then Inl (Thrown ''Request was blocked.'') else Inr (''data:'' @ h))"

definition asPng :: "nat \<Rightarrow> string \<Rightarrow> string \<Rightarrow> exn + jsfile" where
  "asPng k u n = Inr (File n ''image/png'' u)"

definition unreachable :: "string \<Rightarrow> string \<Rightarrow> exn + jsfile" where
  "unreachable u n = Inl (Thrown ''Could not load image.'')"

definition readPart :: "jsfile \<Rightarrow> exn + part" where
  "readPart f = Inr (InlineData (fileType f) (fileBytes f))"

definition offline :: "part \<Rightarrow> exn + response" where
  "offline p = Inl (Thrown ''Failed to fetch'')"

definition silent :: "part \<Rightarrow> exn + response" where
  "silent p = Inr (Response None)"

definition answers :: "string \<Rightarrow> part \<Rightarrow> exn + response" where
  "answers t p = Inr (Response (Some t))"

definition oneColorText :: string where
  \<open>oneColorText = ''{"colors":["#112233"]}''\<close>

definition noColorText :: string where
  \<open>noColorText = ''{"colors":[]}''\<close>

definition parseExample :: "string \<Rightarrow> exn + json" where
  "parseExample t =
     (if t = oneColorText then Inr (JObj [(''colors'', JArr [''#112233''])])
      else if t = noColorText then Inr (JObj [(''colors'', JArr [])])
      else if t = ''null'' then Inr JNull
      else Inl SyntaxError)"

lemmas example_defs =
  shirt_def coat_def shirtFile_def originalVariation_def loaded_def busy_def midBatch_def
  recolored_def oneColor_def twoColors_def allRecolored_def firstBlocked_def asPng_def
  unreachable_def readPart_def offline_def answers_def oneColorText_def noColorText_def
  parseExample_def silent_def sameColorTwice_def noFile_def

lemmas pass_defs = recolorPass_def markDone_def markError_def

lemmas run_defs = handleGenerateVariations_def pass_defs pending_def

section \<open>One pass of the loop\<close>

lemma recolorPass_length:
  "length (fst (recolorPass rc utf it orig k h st)) = length (fst st)"
  by (cases st) (simp add: pass_defs split: sum.splits)

lemma recolorPass_hex:
  "i < length (fst st) \<Longrightarrow> hex (fst (recolorPass rc utf it orig k h st) ! i) = hex (fst st ! i)"
  by (cases st) (simp add: pass_defs split: sum.splits)

lemma recolorPass_other:
  "i < length (fst st) \<Longrightarrow> hex (fst st ! i) \<noteq> h
     \<Longrightarrow> fst (recolorPass rc utf it orig k h st) ! i = fst st ! i"
  by (cases st) (simp add: pass_defs split: sum.splits)

lemma recolorPass_settles:
  "i < length (fst st) \<Longrightarrow> hex (fst st ! i) = h
     \<Longrightarrow> status (fst (recolorPass rc utf it orig k h st) ! i) \<noteq> Generating"
  by (cases st) (simp add: pass_defs split: sum.splits)

lemma recolorPass_no_new_generating:
  "i < length (fst st) \<Longrightarrow> status (fst st ! i) \<noteq> Generating
     \<Longrightarrow> status (fst (recolorPass rc utf it orig k h st) ! i) \<noteq> Generating"
  by (cases st) (simp add: pass_defs split: sum.splits)

lemma recolorPass_no_new_original:
  "i < length (fst st) \<Longrightarrow> status (fst st ! i) \<noteq> Original
     \<Longrightarrow> status (fst (recolorPass rc utf it orig k h st) ! i) \<noteq> Original"
  by (cases st) (simp add: pass_defs split: sum.splits)

lemma recolorPass_error_stays:
  "i < length (fst st) \<Longrightarrow> status (fst st ! i) = Error
     \<Longrightarrow> status (fst (recolorPass rc utf it orig k h st) ! i) = Error"
  by (cases st) (simp add: pass_defs split: sum.splits)

lemma recolorPass_fails:
  "passFails rc utf it orig k h \<Longrightarrow> fst (recolorPass rc utf it orig k h st) = markError h (fst st)"
  by (cases st) (simp add: recolorPass_def passFails_def split: sum.splits)

lemma markError_nth:
  "i < length prev \<Longrightarrow>
     markError h prev ! i = (if hex (prev ! i) = h then (prev ! i)\<lparr>status := Error\<rparr> else prev ! i)"
  by (simp add: markError_def)

lemma recolorRequests_append:
  "recolorRequests (xs @ ys) = recolorRequests xs @ recolorRequests ys"
  by (induction xs rule: recolorRequests.induct) simp_all

lemma recolorPass_requests:
  "recolorRequests (snd (recolorPass rc utf it orig k h st)) = recolorRequests (snd st) @ [h]"
  by (cases st) (simp add: recolorPass_def recolorRequests_append split: sum.splits)

lemma forColors_length:
  "length (fst (forColors rc utf it orig k cs st)) = length (fst st)"
  by (induction cs arbitrary: k st) (simp_all add: recolorPass_length)

lemma forColors_hex:
  "i < length (fst st) \<Longrightarrow> hex (fst (forColors rc utf it orig k cs st) ! i) = hex (fst st ! i)"
  by (induction cs arbitrary: k st) (simp_all add: recolorPass_length recolorPass_hex)

lemma forColors_other:
  "i < length (fst st) \<Longrightarrow> hex (fst st ! i) \<notin> set cs
     \<Longrightarrow> fst (forColors rc utf it orig k cs st) ! i = fst st ! i"
  by (induction cs arbitrary: k st) (simp_all add: recolorPass_length recolorPass_hex recolorPass_other)

lemma forColors_no_new_generating:
  "i < length (fst st) \<Longrightarrow> status (fst st ! i) \<noteq> Generating
     \<Longrightarrow> status (fst (forColors rc utf it orig k cs st) ! i) \<noteq> Generating"
  by (induction cs arbitrary: k st) (simp_all add: recolorPass_length recolorPass_no_new_generating)

lemma forColors_no_new_original:
  "i < length (fst st) \<Longrightarrow> status (fst st ! i) \<noteq> Original
     \<Longrightarrow> status (fst (forColors rc utf it orig k cs st) ! i) \<noteq> Original"
  by (induction cs arbitrary: k st) (simp_all add: recolorPass_length recolorPass_no_new_original)

lemma forColors_error_stays:
  "i < length (fst st) \<Longrightarrow> status (fst st ! i) = Error
     \<Longrightarrow> status (fst (forColors rc utf it orig k cs st) ! i) = Error"
  by (induction cs arbitrary: k st) (simp_all add: recolorPass_length recolorPass_error_stays)

lemma forColors_settles:
  "i < length (fst st) \<Longrightarrow> hex (fst st ! i) \<in> set cs
     \<Longrightarrow> status (fst (forColors rc utf it orig k cs st) ! i) \<noteq> Generating"
proof (induction cs arbitrary: k st)
  case Nil
  then show ?case by simp
next
  case (Cons h cs)
  let ?st = "recolorPass rc utf it orig k h st"
  have len: "i < length (fst ?st)"
    using Cons.prems(1) by (simp add: recolorPass_length)
  show ?case
  proof (cases "hex (fst st ! i) = h")
    case True
    then have "status (fst ?st ! i) \<noteq> Generating"
      using Cons.prems(1) by (simp add: recolorPass_settles)
    then show ?thesis
      using len by (simp add: forColors_no_new_generating)
  next
    case False
    then have "hex (fst ?st ! i) \<in> set cs"
      using Cons.prems by (simp add: recolorPass_hex)
    then show ?thesis
      using len Cons.IH by simp
  qed
qed

lemma forColors_failed:
  "i < length (fst st) \<Longrightarrow> j < length cs \<Longrightarrow> passFails rc utf it orig (k + j) (cs ! j)
     \<Longrightarrow> hex (fst st ! i) = cs ! j
     \<Longrightarrow> status (fst (forColors rc utf it orig k cs st) ! i) = Error"
proof (induction cs arbitrary: k st j)
  case Nil
  then show ?case by simp
next
  case (Cons h cs)
  let ?st = "recolorPass rc utf it orig k h st"
  have len: "i < length (fst ?st)"
    using Cons.prems(1) by (simp add: recolorPass_length)
  show ?case
  proof (cases j)
    case 0
    then have "status (fst ?st ! i) = Error"
      using Cons.prems by (simp add: recolorPass_fails markError_nth)
    then show ?thesis
      using len by (simp add: forColors_error_stays)
  next
    case (Suc j')
    then have "j' < length cs" "passFails rc utf it orig (Suc k + j') (cs ! j')"
      "hex (fst ?st ! i) = cs ! j'"
      using Cons.prems by (simp_all add: recolorPass_hex)
    then show ?thesis
      using len Cons.IH [of ?st j' "Suc k"] by simp
  qed
qed

lemma forColors_requests:
  "recolorRequests (snd (forColors rc utf it orig k cs st)) = recolorRequests (snd st) @ cs"
  by (induction cs arbitrary: k st) (simp_all add: recolorPass_requests)

lemma forColors_map_hex:
  "map hex (fst (forColors rc utf it orig k cs st)) = map hex (fst st)"
  by (rule nth_equalityI) (simp_all add: forColors_length forColors_hex)

lemma recolorPass_same_outcome:
  assumes "rc k orig h = rc' k orig h" and "utf k = utf' k"
    and "i < length (fst st)" and "i < length (fst st')" and "fst st ! i = fst st' ! i"
  shows "fst (recolorPass rc utf it orig k h st) ! i = fst (recolorPass rc' utf' it orig k h st') ! i"
  using assms by (cases st; cases st') (simp add: pass_defs split: sum.splits)

lemma forColors_isolated:
  assumes "length (fst st) = length (fst st')"
    and "\<forall>i<length (fst st). hex (fst st ! i) = hex (fst st' ! i)
           \<and> (hex (fst st ! i) \<noteq> c \<longrightarrow> fst st ! i = fst st' ! i)"
    and "\<forall>j<length cs. cs ! j \<noteq> c \<longrightarrow>
           rc' (k + j) orig (cs ! j) = rc (k + j) orig (cs ! j) \<and> utf' (k + j) = utf (k + j)"
    and "i < length (fst st)" and "hex (fst st ! i) \<noteq> c"
  shows "fst (forColors rc' utf' it orig k cs st') ! i = fst (forColors rc utf it orig k cs st) ! i"
  using assms
proof (induction cs arbitrary: k st st')
  case Nil
  from Nil.prems(2,4,5) have "fst st ! i = fst st' ! i"
    by blast
  then show ?case by simp
next
  case (Cons h cs)
  let ?st = "recolorPass rc utf it orig k h st"
  let ?st' = "recolorPass rc' utf' it orig k h st'"
  have len: "length (fst ?st) = length (fst ?st')"
    using Cons.prems(1) by (simp add: recolorPass_length)
  have rel: "\<forall>i<length (fst ?st). hex (fst ?st ! i) = hex (fst ?st' ! i)
               \<and> (hex (fst ?st ! i) \<noteq> c \<longrightarrow> fst ?st ! i = fst ?st' ! i)"
  proof (intro allI impI conjI)
    fix n assume n: "n < length (fst ?st)"
    then have n1: "n < length (fst st)" and n2: "n < length (fst st')"
      using Cons.prems(1) by (simp_all add: recolorPass_length)
    from Cons.prems(2) n1 have keys: "hex (fst st ! n) = hex (fst st' ! n)"
      by blast
    show "hex (fst ?st ! n) = hex (fst ?st' ! n)"
      using n1 n2 keys by (simp add: recolorPass_hex)
    assume "hex (fst ?st ! n) \<noteq> c"
    then have other: "hex (fst st ! n) \<noteq> c"
      using n1 by (simp add: recolorPass_hex)
    with Cons.prems(2) n1 have same: "fst st ! n = fst st' ! n"
      by blast
    show "fst ?st ! n = fst ?st' ! n"
    proof (cases "h = c")
      case True
      then show ?thesis
        using n1 n2 other keys same by (simp add: recolorPass_other)
    next
      case False
      then have "rc' k orig h = rc k orig h" "utf' k = utf k"
        using Cons.prems(3) [rule_format, of 0] by simp_all
      then show ?thesis
        using n1 n2 same by (intro recolorPass_same_outcome) simp_all
    qed
  qed
  have env: "\<forall>j<length cs. cs ! j \<noteq> c \<longrightarrow>
           rc' (Suc k + j) orig (cs ! j) = rc (Suc k + j) orig (cs ! j) \<and> utf' (Suc k + j) = utf (Suc k + j)"
  proof (intro allI impI)
    fix j assume "j < length cs" "cs ! j \<noteq> c"
    then show "rc' (Suc k + j) orig (cs ! j) = rc (Suc k + j) orig (cs ! j) \<and> utf' (Suc k + j) = utf (Suc k + j)"
      using Cons.prems(3) [rule_format, of "Suc j"] by simp
  qed
  have "i < length (fst ?st)" "hex (fst ?st ! i) \<noteq> c"
    using Cons.prems(4,5) by (simp_all add: recolorPass_length recolorPass_hex)
  then show ?case
    using Cons.IH [OF len rel env] by simp
qed

lemma appended_settled:
  assumes "v \<in> set (drop (length old) (fst (forColors rc utf it orig k cs (old @ map pending cs, log))))"
  shows "status v = Done \<or> status v = Error"
proof -
  let ?st = "(old @ map pending cs, log)"
  let ?res = "fst (forColors rc utf it orig k cs ?st)"
  have len: "length ?res = length old + length cs"
    by (simp add: forColors_length)
  from assms obtain i where i: "i < length cs" and v: "v = ?res ! (length old + i)"
    by (auto simp: in_set_conv_nth len)
  have start: "fst ?st ! (length old + i) = pending (cs ! i)"
    using i by (simp add: nth_append)
  have "status v \<noteq> Generating"
    unfolding v using i start by (intro forColors_settles) (simp_all add: pending_def)
  moreover have "status v \<noteq> Original"
    unfolding v using i start by (intro forColors_no_new_original) (simp_all add: pending_def)
  ultimately show ?thesis
    by (cases "status v") simp_all
qed

section \<open>The handler as a whole\<close>

lemma handleGenerateVariations_guard:
  assumes "item = None \<or> variations s = []
           \<or> (\<exists>v0 others. variations s = v0 # others \<and> file' v0 = None)"
  shows "handleGenerateVariations suggest rc utf item s = (s, [])"
  using assms by (auto simp: handleGenerateVariations_def split: option.splits list.splits)

lemma handleGenerateVariations_run:
  assumes "variations s = v0 # others" and "file' v0 = Some originalFile"
    and "suggest originalFile = Inr colors"
  shows "handleGenerateVariations suggest rc utf (Some it) s =
     (s\<lparr>variations := fst (forColors rc utf it originalFile 0 colors
                              (variations s @ map pending colors, [GetHarmonicColors originalFile])),
        isGenerating := False, error := None\<rparr>,
      snd (forColors rc utf it originalFile 0 colors
             (variations s @ map pending colors, [GetHarmonicColors originalFile])))"
  using assms by (simp add: handleGenerateVariations_def split: prod.splits)

lemma handleGenerateVariations_rejected:
  assumes "variations s = v0 # others" and "file' v0 = Some originalFile"
    and "suggest originalFile = Inl e"
  shows "handleGenerateVariations suggest rc utf (Some it) s =
     (s\<lparr>isGenerating := False, error := Some ''Failed to get color suggestions.''\<rparr>,
      [GetHarmonicColors originalFile])"
  using assms by (simp add: handleGenerateVariations_def)

lemma loaded_is_initialized:
  "initialize (\<lambda>u n. Inr shirtFile) (Some shirt) initial_state = loaded"
  by (simp add: initialize_def initial_state_def example_defs)

lemma example_batch:
  "handleGenerateVariations twoColors firstBlocked asPng (Some shirt) loaded =
     (\<lparr>variations =
         [originalVariation,
          \<lparr>hex = ''#A0D2DB'', url = [], file' = None, status = Error\<rparr>,
          \<lparr>hex = ''#7A6E9E'', url = ''data:#7A6E9E'',
            file' = Some (File ''Shirt-#7A6E9E.png'' ''image/png'' ''data:#7A6E9E''),
            status = Done\<rparr>],
       selectedVariationIndex = 0, isGenerating = False, error = None\<rparr>,
      [GetHarmonicColors shirtFile,
       RecolorGarment shirtFile ''#A0D2DB'',
       RecolorGarment shirtFile ''#7A6E9E'',
       UrlToFile ''data:#7A6E9E'' ''Shirt-#7A6E9E.png''])"
  by (simp add: run_defs example_defs)

lemma recolored_is_first_batch:
  "fst (handleGenerateVariations oneColor allRecolored asPng (Some shirt) loaded) = recolored"
  by (simp add: run_defs example_defs)

lemma forColors_originalKeyed:
  assumes "originalKeyed (fst st)"
  shows "originalKeyed (fst (forColors rc utf it orig k cs st))"
  unfolding originalKeyed_def
proof (intro ballI impI)
  fix v
  assume "v \<in> set (fst (forColors rc utf it orig k cs st))" and orig: "status v = Original"
  then obtain i where i: "i < length (fst st)" and v: "v = fst (forColors rc utf it orig k cs st) ! i"
    by (auto simp: in_set_conv_nth forColors_length)
  have "status (fst st ! i) = Original"
    using forColors_no_new_original [OF i, of rc utf it orig k cs] orig v by auto
  then have "hex (fst st ! i) = ''original''"
    using assms i by (simp add: originalKeyed_def)
  then show "hex v = ''original''"
    using i v by (simp add: forColors_hex)
qed

lemma handleGenerateVariations_originalKeyed:
  assumes "originalKeyed (variations s)"
  shows "originalKeyed (variations (fst (handleGenerateVariations suggest rc utf item s)))"
proof (cases "\<exists>it v0 others f colors. item = Some it \<and> variations s = v0 # others
                \<and> file' v0 = Some f \<and> suggest f = Inr colors")
  case True
  then obtain it v0 others f colors where run: "item = Some it" "variations s = v0 # others"
    "file' v0 = Some f" "suggest f = Inr colors"
    by blast
  have "originalKeyed (variations s @ map pending colors)"
    using assms by (auto simp: originalKeyed_def pending_def)
  then have "originalKeyed (fst (forColors rc utf it f 0 colors
               (variations s @ map pending colors, [GetHarmonicColors f])))"
    by (intro forColors_originalKeyed) simp
  then show ?thesis
    using run by (simp add: handleGenerateVariations_run)
next
  case False
  then have "variations (fst (handleGenerateVariations suggest rc utf item s)) = variations s"
    by (auto simp: handleGenerateVariations_def Let_def split: option.splits list.splits sum.splits)
  then show ?thesis
    using assms by simp
qed

lemma initialize_originalKeyed:
  "originalKeyed (variations s) \<Longrightarrow> originalKeyed (variations (initialize urlToFile item s))"
  by (simp add: initialize_def originalKeyed_def split: option.splits sum.splits)

lemma initial_originalKeyed: "originalKeyed (variations initial_state)"
  by (simp add: initial_state_def originalKeyed_def)

section \<open>The colour suggestion\<close>

lemma parseColors_Inr_iff:
  "parseColors parse r = Inr cs \<longleftrightarrow>
     (\<exists>t kvs. text' r = Some t \<and> parse t = Inr (JObj kvs)
        \<and> map_of kvs ''colors'' = Some (JArr cs) \<and> cs \<noteq> [])"
proof (cases "text' r")
  case None
  then show ?thesis by (simp add: parseColors_def)
next
  case (Some t)
  show ?thesis
  proof (cases "parse t")
    case (Inl e)
    then show ?thesis using Some by (simp add: parseColors_def)
  next
    case (Inr result)
    show ?thesis
    proof (cases result)
      case (JObj kvs)
      show ?thesis
      proof (cases "map_of kvs ''colors''")
        case None
        then show ?thesis using Some Inr JObj by (simp add: parseColors_def)
      next
        case (Some c)
        then show ?thesis
          using \<open>text' r = Some t\<close> Inr JObj by (cases c) (auto simp: parseColors_def)
      qed
    qed (use Some Inr in \<open>simp_all add: parseColors_def\<close>)
  qed
qed

lemma parseColors_unusable:
  assumes "\<not> (\<exists>t kvs cs. text' r = Some t \<and> parse t = Inr (JObj kvs)
                 \<and> map_of kvs ''colors'' = Some (JArr cs) \<and> cs \<noteq> [])"
  shows "\<exists>e. parseColors parse r = Inl e"
proof (cases "parseColors parse r")
  case (Inl e)
  then show ?thesis by blast
next
  case (Inr cs)
  with parseColors_Inr_iff [of parse r cs] assms show ?thesis
    by blast
qed

lemma getHarmonicColors_cases:
  "getHarmonicColors fileToPart generateContent parse f =
     (case fileToPart f of
        Inl e \<Rightarrow> Inl e
      | Inr p \<Rightarrow>
          (case generateContent p of
             Inl e \<Rightarrow> Inl e
           | Inr r \<Rightarrow> Inr (case parseColors parse r of Inr cs \<Rightarrow> cs | Inl e \<Rightarrow> fallbackColors)))"
  by (simp add: getHarmonicColors_def split: sum.splits)

section \<open>Loading the original image\<close>

lemma initialize_success:
  assumes "urlToFile (item_url it) (item_name it) = Inr originalFile"
  shows "initialize urlToFile (Some it) s =
     s\<lparr>variations := [\<lparr>hex = ''original'', url = item_url it, file' = Some originalFile,
                        status = Original\<rparr>],
       selectedVariationIndex := 0, error := None\<rparr>"
  using assms by (simp add: initialize_def)

lemma initialize_failure:
  assumes "urlToFile (item_url it) (item_name it) = Inl e"
  shows "initialize urlToFile (Some it) s =
     s\<lparr>error := Some ''Could not load original garment image.''\<rparr>"
  using assms by (simp add: initialize_def)

section \<open>A batch appends one settled variation per colour\<close>

text \<open>
  C1. Let the handler pass its guard and the suggestion return the colours \<open>colors\<close>.
  When the handler has completed, the list has grown by exactly \<open>length colors\<close>
  entries; the entries that were there before come first, with their colour keys as they
  were; the keys of the new entries are \<open>colors\<close>, in that order; every new entry has
  status \<open>Done\<close> or \<open>Error\<close>, none is left \<open>Generating\<close>; and the batch flag is
  down.
\<close>

theorem generate_appends_settled:
  assumes "variations s = v0 # others" and "file' v0 = Some originalFile"
    and "suggest originalFile = Inr colors"
  shows "let s' = fst (handleGenerateVariations suggest rc utf (Some it) s);
             n = length (variations s)
         in length (variations s') = n + length colors
            \<and> map hex (take n (variations s')) = map hex (variations s)
            \<and> map hex (drop n (variations s')) = colors
            \<and> (\<forall>v \<in> set (drop n (variations s')). status v = Done \<or> status v = Error)
            \<and> \<not> isGenerating s'"
proof -
  let ?res = "fst (forColors rc utf it originalFile 0 colors
                     (variations s @ map pending colors, [GetHarmonicColors originalFile]))"
  have run: "fst (handleGenerateVariations suggest rc utf (Some it) s) =
               s\<lparr>variations := ?res, isGenerating := False, error := None\<rparr>"
    using assms by (simp add: handleGenerateVariations_run)
  have hexes: "map hex ?res = map hex (variations s) @ colors"
    by (simp add: forColors_map_hex pending_def comp_def)
  have "length ?res = length (variations s) + length colors"
    by (simp add: forColors_length)
  moreover have "map hex (take (length (variations s)) ?res) = map hex (variations s)"
    using hexes by (simp flip: take_map)
  moreover have "map hex (drop (length (variations s)) ?res) = colors"
    using hexes by (simp flip: drop_map)
  moreover have "\<forall>v \<in> set (drop (length (variations s)) ?res). status v = Done \<or> status v = Error"
    using appended_settled by blast
  ultimately show ?thesis
    by (simp add: run Let_def)
qed

theorem generate_appends_settled_witness:
  "variations loaded = [originalVariation]
   \<and> file' originalVariation = Some shirtFile
   \<and> twoColors shirtFile = Inr [''#A0D2DB'', ''#7A6E9E'']
   \<and> length (variations (fst (handleGenerateVariations twoColors firstBlocked asPng
                                  (Some shirt) loaded))) = 1 + 2
   \<and> map hex (drop 1 (variations (fst (handleGenerateVariations twoColors firstBlocked asPng
                                        (Some shirt) loaded)))) = [''#A0D2DB'', ''#7A6E9E'']
   \<and> map status (drop 1 (variations (fst (handleGenerateVariations twoColors firstBlocked asPng
                                        (Some shirt) loaded)))) = [Error, Done]
   \<and> \<not> isGenerating (fst (handleGenerateVariations twoColors firstBlocked asPng
                                        (Some shirt) loaded))"
  using generate_appends_settled [where s = loaded and ?v0.0 = originalVariation
      and others = "[]" and originalFile = shirtFile and suggest = twoColors
      and colors = "[''#A0D2DB'', ''#7A6E9E'']" and rc = firstBlocked and utf = asPng
      and it = shirt]
  by (simp add: example_batch) (simp add: example_defs)

section \<open>The fallback palette, and when the suggestion rejects\<close>

text \<open>
  C2, as stated: the suggestion never fails outward, whatever goes wrong inside. That is not
  so: the call to the remote model is awaited before the \<^verbatim>\<open>try\<close> block, so when it
  rejects, \<^verbatim>\<open>getHarmonicColors\<close> rejects too, and the handler's own \<^verbatim>\<open>catch\<close>
  sets the batch error and appends nothing.
\<close>

theorem suggestion_rejects_when_offline:
  "getHarmonicColors readPart offline parseExample shirtFile = Inl (Thrown ''Failed to fetch'')
   \<and> handleGenerateVariations (getHarmonicColors readPart offline parseExample)
        firstBlocked asPng (Some shirt) loaded
       = (loaded\<lparr>error := Some ''Failed to get color suggestions.''\<rparr>,
          [GetHarmonicColors shirtFile])"
  by (simp add: getHarmonicColors_def handleGenerateVariations_def example_defs)

text \<open>
  C2, amended. When the file was read and the model answered, but the answer is unusable,
  the suggestion is the fallback palette; the handler then runs the batch on those four
  colours and leaves the batch error clear. An answer is usable only when it has a text
  that parses to an object whose \<^verbatim>\<open>colors\<close> property is a non-empty array; so an answer
  with no text, with text that is not JSON, with the text \<^verbatim>\<open>null\<close> or with an empty or
  missing \<^verbatim>\<open>colors\<close> array is unusable. When reading the file or the call to the model
  rejects, the suggestion rejects with the same error; the handler then sets the error
  \<open>''Failed to get color suggestions.''\<close>, leaves the list as it was and lowers the flag.
\<close>

theorem suggestion_fallback:
  "(fileToPart f = Inr p \<and> generateContent p = Inr r
      \<and> \<not> (\<exists>t kvs cs. text' r = Some t \<and> parse t = Inr (JObj kvs)
                \<and> map_of kvs ''colors'' = Some (JArr cs) \<and> cs \<noteq> [])
      \<longrightarrow> getHarmonicColors fileToPart generateContent parse f = Inr fallbackColors)
   \<and> (fileToPart f = Inl e \<or> (fileToPart f = Inr p \<and> generateContent p = Inl e)
      \<longrightarrow> getHarmonicColors fileToPart generateContent parse f = Inl e)
   \<and> (variations s = v0 # others \<and> file' v0 = Some f
        \<and> fileToPart f = Inr p \<and> generateContent p = Inr r
        \<and> \<not> (\<exists>t kvs cs. text' r = Some t \<and> parse t = Inr (JObj kvs)
                  \<and> map_of kvs ''colors'' = Some (JArr cs) \<and> cs \<noteq> [])
      \<longrightarrow> (let s' = fst (handleGenerateVariations
                           (getHarmonicColors fileToPart generateContent parse) rc utf (Some it) s)
           in error s' = None
              \<and> map hex (variations s') = map hex (variations s) @ fallbackColors
              \<and> \<not> isGenerating s'))
   \<and> (variations s = v0 # others \<and> file' v0 = Some f
        \<and> (fileToPart f = Inl e \<or> (fileToPart f = Inr p \<and> generateContent p = Inl e))
      \<longrightarrow> handleGenerateVariations
            (getHarmonicColors fileToPart generateContent parse) rc utf (Some it) s
          = (s\<lparr>isGenerating := False, error := Some ''Failed to get color suggestions.''\<rparr>,
             [GetHarmonicColors f]))"
proof -
  have fallback: "getHarmonicColors fileToPart generateContent parse f = Inr fallbackColors"
    if "fileToPart f = Inr p" and "generateContent p = Inr r"
      and "\<not> (\<exists>t kvs cs. text' r = Some t \<and> parse t = Inr (JObj kvs)
                \<and> map_of kvs ''colors'' = Some (JArr cs) \<and> cs \<noteq> [])"
  proof -
    from that(3) obtain e' where "parseColors parse r = Inl e'"
      using parseColors_unusable by blast
    with that(1,2) show ?thesis
      by (simp add: getHarmonicColors_def)
  qed
  have rejects: "getHarmonicColors fileToPart generateContent parse f = Inl e"
    if "fileToPart f = Inl e \<or> (fileToPart f = Inr p \<and> generateContent p = Inl e)"
    using that by (auto simp: getHarmonicColors_def)
  have batch: "let s' = fst (handleGenerateVariations
                           (getHarmonicColors fileToPart generateContent parse) rc utf (Some it) s)
           in error s' = None
              \<and> map hex (variations s') = map hex (variations s) @ fallbackColors
              \<and> \<not> isGenerating s'"
    if "variations s = v0 # others" and "file' v0 = Some f"
      and "getHarmonicColors fileToPart generateContent parse f = Inr fallbackColors"
  proof -
    let ?res = "forColors rc utf it f 0 fallbackColors
                  (variations s @ map pending fallbackColors, [GetHarmonicColors f])"
    have run: "handleGenerateVariations (getHarmonicColors fileToPart generateContent parse)
                 rc utf (Some it) s =
                 (s\<lparr>variations := fst ?res, isGenerating := False, error := None\<rparr>, snd ?res)"
      using that by (rule handleGenerateVariations_run)
    have "map hex (fst ?res) = map hex (variations s) @ fallbackColors"
      by (simp add: forColors_map_hex pending_def comp_def)
    then show ?thesis
      by (simp add: run)
  qed
  have stops: "handleGenerateVariations
            (getHarmonicColors fileToPart generateContent parse) rc utf (Some it) s
          = (s\<lparr>isGenerating := False, error := Some ''Failed to get color suggestions.''\<rparr>,
             [GetHarmonicColors f])"
    if "variations s = v0 # others" and "file' v0 = Some f"
      and "getHarmonicColors fileToPart generateContent parse f = Inl e"
    using that by (rule handleGenerateVariations_rejected)
  show ?thesis
    using fallback rejects batch stops by blast
qed

theorem suggestion_fallback_witness:
  "getHarmonicColors readPart silent parseExample shirtFile = Inr fallbackColors
   \<and> getHarmonicColors readPart (answers ''not json'') parseExample shirtFile = Inr fallbackColors
   \<and> getHarmonicColors readPart (answers ''null'') parseExample shirtFile = Inr fallbackColors
   \<and> getHarmonicColors readPart (answers noColorText) parseExample shirtFile = Inr fallbackColors
   \<and> error (fst (handleGenerateVariations
                    (getHarmonicColors readPart (answers ''null'') parseExample)
                    allRecolored asPng (Some shirt) loaded)) = None
   \<and> map hex (variations (fst (handleGenerateVariations
                    (getHarmonicColors readPart (answers ''null'') parseExample)
                    allRecolored asPng (Some shirt) loaded)))
       = [''original'', ''#A0D2DB'', ''#7A6E9E'', ''#E8A0BF'', ''#B4E1D2'']
   \<and> getHarmonicColors readPart offline parseExample shirtFile = Inl (Thrown ''Failed to fetch'')
   \<and> handleGenerateVariations (getHarmonicColors readPart offline parseExample)
        allRecolored asPng (Some shirt) loaded
       = (loaded\<lparr>error := Some ''Failed to get color suggestions.''\<rparr>,
          [GetHarmonicColors shirtFile])"
proof -
  let ?p = "InlineData ''image/png'' ''PNG''"
  have part: "readPart shirtFile = Inr ?p"
    by (simp add: example_defs)
  have start: "variations loaded = originalVariation # []" "file' originalVariation = Some shirtFile"
    by (simp_all add: example_defs)
  have r1: "silent ?p = Inr (Response None)"
    and u1: "\<not> (\<exists>t kvs cs. text' (Response None) = Some t \<and> parseExample t = Inr (JObj kvs)
                \<and> map_of kvs ''colors'' = Some (JArr cs) \<and> cs \<noteq> [])"
    by (simp_all add: silent_def)
  have r2: "answers ''not json'' ?p = Inr (Response (Some ''not json''))"
    and u2: "\<not> (\<exists>t kvs cs. text' (Response (Some ''not json'')) = Some t
                \<and> parseExample t = Inr (JObj kvs)
                \<and> map_of kvs ''colors'' = Some (JArr cs) \<and> cs \<noteq> [])"
    by (simp_all add: example_defs)
  have r3: "answers ''null'' ?p = Inr (Response (Some ''null''))"
    and u3: "\<not> (\<exists>t kvs cs. text' (Response (Some ''null'')) = Some t
                \<and> parseExample t = Inr (JObj kvs)
                \<and> map_of kvs ''colors'' = Some (JArr cs) \<and> cs \<noteq> [])"
    by (simp_all add: example_defs)
  have r4: "answers noColorText ?p = Inr (Response (Some noColorText))"
    and u4: "\<not> (\<exists>t kvs cs. text' (Response (Some noColorText)) = Some t
                \<and> parseExample t = Inr (JObj kvs)
                \<and> map_of kvs ''colors'' = Some (JArr cs) \<and> cs \<noteq> [])"
    by (simp_all add: answers_def parseExample_def oneColorText_def noColorText_def)
  have off: "offline ?p = Inl (Thrown ''Failed to fetch'')"
    by (simp add: example_defs)
  note t1 = suggestion_fallback [where fileToPart = readPart and generateContent = silent
      and parse = parseExample and f = shirtFile and p = ?p and r = "Response None"]
  note t2 = suggestion_fallback [where fileToPart = readPart
      and generateContent = "answers ''not json''"
      and parse = parseExample and f = shirtFile and p = ?p
      and r = "Response (Some ''not json'')"]
  note t3 = suggestion_fallback [where fileToPart = readPart and generateContent = "answers ''null''"
      and parse = parseExample and f = shirtFile and p = ?p and r = "Response (Some ''null'')"
      and s = loaded and ?v0.0 = originalVariation and others = "[]" and rc = allRecolored
      and utf = asPng and it = shirt]
  note t4 = suggestion_fallback [where fileToPart = readPart
      and generateContent = "answers noColorText"
      and parse = parseExample and f = shirtFile and p = ?p
      and r = "Response (Some noColorText)"]
  note t5 = suggestion_fallback [where fileToPart = readPart and generateContent = offline
      and parse = parseExample and f = shirtFile and p = ?p
      and e = "Thrown ''Failed to fetch''" and s = loaded
      and ?v0.0 = originalVariation and others = "[]" and rc = allRecolored and utf = asPng
      and it = shirt]
  have c1: "getHarmonicColors readPart silent parseExample shirtFile = Inr fallbackColors"
    using t1 part r1 u1 by blast
  have c2: "getHarmonicColors readPart (answers ''not json'') parseExample shirtFile = Inr fallbackColors"
    using t2 part r2 u2 by blast
  have c3: "getHarmonicColors readPart (answers ''null'') parseExample shirtFile = Inr fallbackColors"
    using t3 part r3 u3 by blast
  have c4: "getHarmonicColors readPart (answers noColorText) parseExample shirtFile = Inr fallbackColors"
    using t4 part r4 u4 by blast
  have c5: "let s' = fst (handleGenerateVariations
                    (getHarmonicColors readPart (answers ''null'') parseExample)
                    allRecolored asPng (Some shirt) loaded)
            in error s' = None
               \<and> map hex (variations s') = map hex (variations loaded) @ fallbackColors
               \<and> \<not> isGenerating s'"
    using t3 part r3 u3 start by blast
  have c6: "getHarmonicColors readPart offline parseExample shirtFile = Inl (Thrown ''Failed to fetch'')"
    using t5 part off by blast
  have c7: "handleGenerateVariations (getHarmonicColors readPart offline parseExample)
        allRecolored asPng (Some shirt) loaded
       = (loaded\<lparr>isGenerating := False, error := Some ''Failed to get color suggestions.''\<rparr>,
          [GetHarmonicColors shirtFile])"
    using t5 part off start by blast
  have same: "loaded\<lparr>isGenerating := False, error := Some ''Failed to get color suggestions.''\<rparr>
                = loaded\<lparr>error := Some ''Failed to get color suggestions.''\<rparr>"
    by (simp add: loaded_def)
  have keys: "map hex (variations loaded) @ fallbackColors
                = [''original'', ''#A0D2DB'', ''#7A6E9E'', ''#E8A0BF'', ''#B4E1D2'']"
    by (simp add: example_defs fallbackColors_def)
  from c5 have c5a: "error (fst (handleGenerateVariations
                    (getHarmonicColors readPart (answers ''null'') parseExample)
                    allRecolored asPng (Some shirt) loaded)) = None"
    and c5b: "map hex (variations (fst (handleGenerateVariations
                    (getHarmonicColors readPart (answers ''null'') parseExample)
                    allRecolored asPng (Some shirt) loaded)))
       = [''original'', ''#A0D2DB'', ''#7A6E9E'', ''#E8A0BF'', ''#B4E1D2'']"
    unfolding Let_def keys [symmetric] by blast+
  show ?thesis
    using c1 c2 c3 c4 c5a c5b c6 c7 unfolding same by blast
qed

section \<open>A failing colour and the other variations\<close>

text \<open>
  What holds of a batch in which pass \<open>k\<close> fails, for the colour \<open>c = colors ! k\<close>: the
  appended variations with key \<open>c\<close> end in \<open>Error\<close>; the failing pass changes no
  variation with another key, whatever the list is at that time; had the passes for \<open>c\<close>
  fared differently, the variations with another key would have ended the same; a recolour
  request was sent for every colour of the batch, in order; every appended variation is
  settled; and the batch flag is down.
\<close>

lemma failing_pass_frame:
  assumes "variations s = v0 # others" and "file' v0 = Some originalFile"
    and "suggest originalFile = Inr colors"
    and "k < length colors" and "passFails rc utf it originalFile k (colors ! k)"
  shows "let s' = fst (handleGenerateVariations suggest rc utf (Some it) s);
             log = snd (handleGenerateVariations suggest rc utf (Some it) s)
         in (\<forall>v \<in> set (drop (length (variations s)) (variations s')).
                  hex v = colors ! k \<longrightarrow> status v = Error)
            \<and> (\<forall>prev log' i. i < length prev \<and> hex (prev ! i) \<noteq> colors ! k \<longrightarrow>
                  fst (recolorPass rc utf it originalFile k (colors ! k) (prev, log')) ! i = prev ! i)
            \<and> (\<forall>rc' utf'.
                  (\<forall>j<length colors. colors ! j \<noteq> colors ! k \<longrightarrow>
                     rc' j originalFile (colors ! j) = rc j originalFile (colors ! j)
                     \<and> utf' j = utf j) \<longrightarrow>
                  (\<forall>i<length (variations s'). hex (variations s' ! i) \<noteq> colors ! k \<longrightarrow>
                     variations (fst (handleGenerateVariations suggest rc' utf' (Some it) s)) ! i
                       = variations s' ! i))
            \<and> recolorRequests log = colors
            \<and> (\<forall>v \<in> set (drop (length (variations s)) (variations s')).
                  status v = Done \<or> status v = Error)
            \<and> \<not> isGenerating s'"
proof -
  let ?start = "(variations s @ map pending colors, [GetHarmonicColors originalFile])"
  let ?res = "forColors rc utf it originalFile 0 colors ?start"
  have run: "handleGenerateVariations suggest rc utf (Some it) s =
               (s\<lparr>variations := fst ?res, isGenerating := False, error := None\<rparr>, snd ?res)"
    using assms(1-3) by (rule handleGenerateVariations_run)
  have failed: "\<forall>v \<in> set (fst ?res). hex v = colors ! k \<longrightarrow> status v = Error"
  proof (intro ballI impI)
    fix v assume "v \<in> set (fst ?res)" and key: "hex v = colors ! k"
    then obtain i where i: "i < length (fst ?start)" and v: "v = fst ?res ! i"
      by (auto simp: in_set_conv_nth forColors_length)
    have "hex (fst ?start ! i) = colors ! k"
      using i key unfolding v by (simp only: forColors_hex)
    then show "status v = Error"
      unfolding v using i assms(4,5) forColors_failed [of i ?start k colors rc utf it originalFile 0]
      by simp
  qed
  have pass: "\<forall>prev log' i. i < length prev \<and> hex (prev ! i) \<noteq> colors ! k \<longrightarrow>
                  fst (recolorPass rc utf it originalFile k (colors ! k) (prev, log')) ! i = prev ! i"
    using recolorPass_other [of _ "(_, _)"] by simp
  have others: "\<forall>rc' utf'.
                  (\<forall>j<length colors. colors ! j \<noteq> colors ! k \<longrightarrow>
                     rc' j originalFile (colors ! j) = rc j originalFile (colors ! j)
                     \<and> utf' j = utf j) \<longrightarrow>
                  (\<forall>i<length (fst ?res). hex (fst ?res ! i) \<noteq> colors ! k \<longrightarrow>
                     variations (fst (handleGenerateVariations suggest rc' utf' (Some it) s)) ! i
                       = fst ?res ! i)"
  proof (intro allI impI)
    fix rc' utf' i
    assume env: "\<forall>j<length colors. colors ! j \<noteq> colors ! k \<longrightarrow>
                     rc' j originalFile (colors ! j) = rc j originalFile (colors ! j)
                     \<and> utf' j = utf j"
      and i: "i < length (fst ?res)" and key: "hex (fst ?res ! i) \<noteq> colors ! k"
    have i': "i < length (fst ?start)"
      using i by (simp add: forColors_length)
    have key': "hex (fst ?start ! i) \<noteq> colors ! k"
      using key forColors_hex [OF i', of rc utf it originalFile 0 colors] by simp
    have "fst (forColors rc' utf' it originalFile 0 colors ?start) ! i = fst ?res ! i"
      using env i' key' by (intro forColors_isolated [where c = "colors ! k"]) simp_all
    then show "variations (fst (handleGenerateVariations suggest rc' utf' (Some it) s)) ! i
                 = fst ?res ! i"
      using assms(1-3) by (simp add: handleGenerateVariations_run)
  qed
  have requests: "recolorRequests (snd ?res) = colors"
    by (simp add: forColors_requests)
  have settled: "\<forall>v \<in> set (drop (length (variations s)) (fst ?res)).
                   status v = Done \<or> status v = Error"
    using appended_settled by blast
  have vs: "variations (fst (handleGenerateVariations suggest rc utf (Some it) s)) = fst ?res"
    and log: "snd (handleGenerateVariations suggest rc utf (Some it) s) = snd ?res"
    and idle: "\<not> isGenerating (fst (handleGenerateVariations suggest rc utf (Some it) s))"
    by (simp_all add: run)
  have appended: "\<forall>v \<in> set (drop (length (variations s)) (fst ?res)).
                    hex v = colors ! k \<longrightarrow> status v = Error"
    using failed by (blast dest: in_set_dropD)
  show ?thesis
    unfolding Let_def vs log
    by (intro conjI appended pass others requests settled idle)
qed

text \<open>
  C3. A failure for a colour is to put the variation in flight for that colour into
  \<open>Error\<close> and to leave the status of every other variation alone. The error update
  matches on the colour key only (\<open>markError_nth\<close>), so it also reaches other variations
  that carry the same key. First run: the shirt has a \<open>Done\<close> variation for a colour, a
  second batch suggests that colour again and its recolouring is blocked; the \<open>Done\<close>
  variation goes to \<open>Error\<close> too. Second run: the batch holds one colour twice, pass
  \<open>0\<close> is blocked and pass \<open>1\<close> goes through; both entries end in \<open>Error\<close>. In both
  runs every colour is requested and the flag is down at the end.
\<close>

theorem failure_for_a_colour_reaches_other_variants:
  "passFails firstBlocked asPng shirt shirtFile 0 ''#A0D2DB''
   \<and> map hex (variations recolored) = [''original'', ''#A0D2DB'']
   \<and> map status (variations recolored) = [Original, Done]
   \<and> map status (variations (fst (handleGenerateVariations oneColor firstBlocked asPng
                                      (Some shirt) recolored)))
       = [Original, Error, Error]
   \<and> \<not> passFails firstBlocked asPng shirt shirtFile 1 ''#A0D2DB''
   \<and> map status (variations (fst (handleGenerateVariations sameColorTwice firstBlocked asPng
                                      (Some shirt) loaded)))
       = [Original, Error, Error]
   \<and> recolorRequests (snd (handleGenerateVariations sameColorTwice firstBlocked asPng
                              (Some shirt) loaded)) = [''#A0D2DB'', ''#A0D2DB'']
   \<and> \<not> isGenerating (fst (handleGenerateVariations sameColorTwice firstBlocked asPng
                               (Some shirt) loaded))"
  by (simp add: run_defs passFails_def example_defs sameColorTwice_def)

section \<open>The guard of the handler and the disabled button\<close>

text \<open>
  C4. The operation is the click on the Generate button, the only place the handler is
  called from. The click changes nothing and sends no request when the list is empty, when
  its first entry has no file, or when a batch is in progress; likewise when there is no
  item or the host is loading. The first two are the handler's own guard (second
  conjunct); the flag is tested by the button, which is disabled while it is up.
\<close>

theorem generate_guarded:
  "(variations s = []
      \<or> (\<exists>v0 others. variations s = v0 # others \<and> file' v0 = None)
      \<or> isGenerating s \<or> item = None \<or> isLoading
     \<longrightarrow> clickGenerate isLoading suggest rc utf item s = (s, []))
   \<and> (item = None \<or> variations s = []
      \<or> (\<exists>v0 others. variations s = v0 # others \<and> file' v0 = None)
     \<longrightarrow> handleGenerateVariations suggest rc utf item s = (s, []))"
  using handleGenerateVariations_guard [of item s suggest rc utf]
  by (auto simp: clickGenerate_def)

theorem generate_guarded_witness:
  "variations initial_state = []
   \<and> clickGenerate False twoColors firstBlocked asPng (Some shirt) initial_state
       = (initial_state, [])
   \<and> file' (hd (variations noFile)) = None
   \<and> clickGenerate False twoColors firstBlocked asPng (Some shirt) noFile = (noFile, [])
   \<and> isGenerating busy
   \<and> clickGenerate False twoColors firstBlocked asPng (Some shirt) busy = (busy, [])
   \<and> isGenerating midBatch
   \<and> clickGenerate False twoColors firstBlocked asPng (Some shirt) midBatch = (midBatch, [])
   \<and> handleGenerateVariations twoColors firstBlocked asPng (Some shirt) initial_state
       = (initial_state, [])"
  using generate_guarded [of initial_state "Some shirt" False twoColors firstBlocked asPng]
    generate_guarded [of noFile "Some shirt" False twoColors firstBlocked asPng]
    generate_guarded [of busy "Some shirt" False twoColors firstBlocked asPng]
    generate_guarded [of midBatch "Some shirt" False twoColors firstBlocked asPng]
  by (simp add: initial_state_def busy_def loaded_def midBatch_def noFile_def)

section \<open>A failed load keeps the previous variations\<close>

text \<open>
  C5. On success \<open>initialize\<close> sets the list to the single original variation, the index
  to \<open>0\<close> and clears the error (\<open>initialize_success\<close>). On failure it sets the error
  and nothing else (\<open>initialize_failure\<close>): the list is empty afterwards only if it was
  empty before. Here the coat cannot be loaded after the shirt was recoloured, and the
  shirt's two variations stay in the list.
\<close>

theorem initialize_failure_keeps_variants:
  "unreachable (item_url coat) (item_name coat) = Inl (Thrown ''Could not load image.'')
   \<and> variations (initialize unreachable (Some coat) recolored) = variations recolored
   \<and> length (variations (initialize unreachable (Some coat) recolored)) = 2
   \<and> error (initialize unreachable (Some coat) recolored)
       = Some ''Could not load original garment image.''"
  by (simp add: initialize_def example_defs)

section \<open>The error update does not test the status\<close>

text \<open>
  C6. The update to \<open>Done\<close> touches only entries that are \<open>Generating\<close>
  (\<open>markDone\<close>); the update to \<open>Error\<close> touches every entry with the colour key
  (\<open>markError_nth\<close>). Here a second batch suggests a colour that an earlier batch has
  already produced, and its recolouring fails: the earlier \<open>Done\<close> variation is set to
  \<open>Error\<close> as well.
\<close>

theorem failed_pass_marks_done_variant:
  "status (variations recolored ! 1) = Done
   \<and> hex (variations recolored ! 1) = ''#A0D2DB''
   \<and> variations (fst (handleGenerateVariations oneColor firstBlocked asPng (Some shirt) recolored))
       = [originalVariation,
          \<lparr>hex = ''#A0D2DB'', url = ''data:#A0D2DB'',
            file' = Some (File ''Shirt-#A0D2DB.png'' ''image/png'' ''data:#A0D2DB''),
            status = Error\<rparr>,
          \<lparr>hex = ''#A0D2DB'', url = [], file' = None, status = Error\<rparr>]"
  by (simp add: run_defs example_defs)

section \<open>Applying the selected variation\<close>

lemma at_index_Some: "at_index xs i = Some x \<longleftrightarrow> i < length xs \<and> xs ! i = x"
  by (auto simp: at_index_def)

lemma at_index_None: "at_index xs i = None \<longleftrightarrow> length xs \<le> i"
  by (auto simp: at_index_def)

text \<open>
  C7. When the selected variation is \<open>Generating\<close> or \<open>Error\<close>, or has no file,
  \<^verbatim>\<open>handleApply\<close> returns without calling \<^verbatim>\<open>onApply\<close> and with the state as it was.
\<close>

theorem handleApply_gated:
  assumes "at_index (variations s) (selectedVariationIndex s) = Some v"
    and "status v = Generating \<or> status v = Error \<or> file' v = None"
  shows "handleApply item s = Inr (s, None)"
  using assms by (auto simp: handleApply_def Let_def split: option.splits)

theorem handleApply_gated_witness:
  "at_index (variations midBatch) (selectedVariationIndex midBatch)
     = Some \<lparr>hex = ''#7A6E9E'', url = [], file' = None, status = Generating\<rparr>
   \<and> handleApply (Some shirt) midBatch = Inr (midBatch, None)
   \<and> at_index (variations (midBatch\<lparr>selectedVariationIndex := 1\<rparr>)) 1
     = Some \<lparr>hex = ''#A0D2DB'', url = [], file' = None, status = Error\<rparr>
   \<and> handleApply (Some shirt) (midBatch\<lparr>selectedVariationIndex := 1\<rparr>)
       = Inr (midBatch\<lparr>selectedVariationIndex := 1\<rparr>, None)"
  using handleApply_gated [of midBatch "\<lparr>hex = ''#7A6E9E'', url = [], file' = None, status = Generating\<rparr>" "Some shirt"]
    handleApply_gated [of "midBatch\<lparr>selectedVariationIndex := 1\<rparr>"
       "\<lparr>hex = ''#A0D2DB'', url = [], file' = None, status = Error\<rparr>" "Some shirt"]
  by (simp add: midBatch_def at_index_def)

text \<open>
  C8. When the selected variation has a file and is \<open>Original\<close> or \<open>Done\<close>,
  \<^verbatim>\<open>handleApply\<close> calls \<^verbatim>\<open>onApply\<close> with that file and with the item changed as
  follows: the id is the item's id, \<open>''-''\<close> and the colour key (so it ends with
  \<open>''-original''\<close> for the original variation, whose key is \<open>''original''\<close>); the name
  is the item's name for an \<open>Original\<close> variation and otherwise the name, \<open>'' (''\<close>,
  the key and \<open>'')''\<close>; the URL is the variation's; brand and description are kept.
  The lists the handlers build are \<open>originalKeyed\<close> (\<open>initial_originalKeyed\<close>,
  \<open>initialize_originalKeyed\<close>, \<open>handleGenerateVariations_originalKeyed\<close>).
\<close>

theorem handleApply_derived_identity:
  assumes "at_index (variations s) (selectedVariationIndex s) = Some v"
    and "file' v = Some f"
    and "status v = Original \<or> status v = Done"
  shows "\<exists>info. handleApply (Some it) s = Inr (s, Some (f, info))
           \<and> item_id info = item_id it @ ''-'' @ hex v
           \<and> item_name info =
               (if status v = Original then item_name it
                else item_name it @ '' ('' @ hex v @ '')'')
           \<and> item_url info = url v
           \<and> item_brand info = item_brand it
           \<and> item_description info = item_description it
           \<and> (originalKeyed (variations s) \<and> status v = Original
                \<longrightarrow> item_id info = item_id it @ ''-original'')"
proof -
  have "originalKeyed (variations s) \<and> status v = Original \<longrightarrow> hex v = ''original''"
    using assms(1) by (auto simp: originalKeyed_def at_index_def split: if_splits)
  then show ?thesis
    using assms by (auto simp: handleApply_def Let_def newInfo_def split: option.splits)
qed

theorem handleApply_derived_identity_witness:
  "at_index (variations loaded) (selectedVariationIndex loaded) = Some originalVariation
   \<and> file' originalVariation = Some shirtFile
   \<and> status originalVariation = Original
   \<and> originalKeyed (variations loaded)
   \<and> handleApply (Some shirt) loaded
       = Inr (loaded, Some (shirtFile, shirt\<lparr>item_id := ''shirt-1-original''\<rparr>))
   \<and> handleApply (Some shirt) (recolored\<lparr>selectedVariationIndex := 1\<rparr>)
       = Inr (recolored\<lparr>selectedVariationIndex := 1\<rparr>,
              Some (File ''Shirt-#A0D2DB.png'' ''image/png'' ''data:#A0D2DB'',
                    shirt\<lparr>item_id := ''shirt-1-#A0D2DB'', item_name := ''Shirt (#A0D2DB)'',
                          item_url := ''data:#A0D2DB''\<rparr>))"
proof -
  have sel: "at_index (variations loaded) (selectedVariationIndex loaded) = Some originalVariation"
    and content: "file' originalVariation = Some shirtFile"
    and st: "status originalVariation = Original \<or> status originalVariation = Done"
    by (simp_all add: example_defs at_index_def)
  have sel': "at_index (variations (recolored\<lparr>selectedVariationIndex := 1\<rparr>))
                 (selectedVariationIndex (recolored\<lparr>selectedVariationIndex := 1\<rparr>))
               = Some (variations recolored ! 1)"
    and content': "file' (variations recolored ! 1)
                    = Some (File ''Shirt-#A0D2DB.png'' ''image/png'' ''data:#A0D2DB'')"
    and st': "status (variations recolored ! 1) = Original \<or> status (variations recolored ! 1) = Done"
    by (simp_all add: example_defs at_index_def)
  from handleApply_derived_identity [OF sel content st, of shirt]
    handleApply_derived_identity [OF sel' content' st', of shirt]
  show ?thesis
    using sel content
    by (auto simp: example_defs originalKeyed_def wardrobe_item.equality)
qed

section \<open>The suggestion is never empty\<close>

text \<open>
  C9. When \<^verbatim>\<open>getHarmonicColors\<close> returns a list, the list is not empty: it is the
  fallback palette of four colours, or the \<^verbatim>\<open>colors\<close> array of the parsed answer, which
  is returned only when it is a non-empty array.
\<close>

theorem getHarmonicColors_nonempty:
  assumes "getHarmonicColors fileToPart generateContent parse f = Inr cs"
  shows "cs \<noteq> []
         \<and> (cs = fallbackColors
              \<or> (\<exists>p r t kvs. fileToPart f = Inr p \<and> generateContent p = Inr r
                    \<and> text' r = Some t \<and> parse t = Inr (JObj kvs)
                    \<and> map_of kvs ''colors'' = Some (JArr cs)))
         \<and> length fallbackColors = 4"
proof -
  from assms obtain p r where p: "fileToPart f = Inr p" and r: "generateContent p = Inr r"
    and cs: "cs = (case parseColors parse r of Inr xs \<Rightarrow> xs | Inl e \<Rightarrow> fallbackColors)"
    by (auto simp: getHarmonicColors_cases split: sum.splits)
  show ?thesis
  proof (cases "parseColors parse r")
    case (Inl e)
    then show ?thesis using cs by (simp add: fallbackColors_def)
  next
    case (Inr xs)
    then have "cs = xs" using cs by simp
    with Inr parseColors_Inr_iff [of parse r cs] p r show ?thesis
      by (auto simp: fallbackColors_def)
  qed
qed

theorem getHarmonicColors_nonempty_witness:
  "getHarmonicColors readPart (answers oneColorText) parseExample shirtFile
     = Inr [''#112233'']
   \<and> [''#112233''] \<noteq> ([] :: string list)
   \<and> getHarmonicColors readPart (answers noColorText) parseExample shirtFile
     = Inr fallbackColors
   \<and> fallbackColors \<noteq> []"
  using getHarmonicColors_nonempty [of readPart "answers oneColorText" parseExample shirtFile "[''#112233'']"]
    getHarmonicColors_nonempty [of readPart "answers noColorText" parseExample shirtFile fallbackColors]
  by (simp add: getHarmonicColors_def parseColors_def example_defs fallbackColors_def)

section \<open>Applying with nothing selected\<close>

text \<open>
  C10. \<^verbatim>\<open>handleApply\<close> never throws, whatever the selected index is. When the index is
  past the end of the list (the read gives \<^verbatim>\<open>undefined\<close>) or the selected variation has
  no file, it returns without calling \<^verbatim>\<open>onApply\<close>.
\<close>

theorem handleApply_safe:
  "(\<forall>e. handleApply item s \<noteq> Inl e)
   \<and> (length (variations s) \<le> selectedVariationIndex s
        \<or> (\<exists>v. at_index (variations s) (selectedVariationIndex s) = Some v \<and> file' v = None)
      \<longrightarrow> handleApply item s = Inr (s, None))"
  by (auto simp: handleApply_def Let_def at_index_def split: option.splits)

theorem handleApply_safe_witness:
  "length (variations initial_state) \<le> selectedVariationIndex initial_state
   \<and> handleApply (Some shirt) initial_state = Inr (initial_state, None)
   \<and> length (variations (loaded\<lparr>selectedVariationIndex := 1\<rparr>)) \<le> 1
   \<and> handleApply (Some shirt) (loaded\<lparr>selectedVariationIndex := 1\<rparr>)
       = Inr (loaded\<lparr>selectedVariationIndex := 1\<rparr>, None)"
  using handleApply_safe [of "Some shirt" initial_state]
    handleApply_safe [of "Some shirt" "loaded\<lparr>selectedVariationIndex := 1\<rparr>"]
  by (simp add: loaded_def initial_state_def)

end
